theory Spec2Isabelle
  imports Complex_Main
begin

section \<open>Exceptions and outcomes\<close>

text \<open>
  Python exceptions are values. \<open>TypeError\<close>, \<open>AttributeError\<close> and \<open>KeyError\<close> are
  the built-in classes the source raises or lets escape; \<open>OSError\<close> and
  \<open>JSONDecodeError\<close> come from \<open>open\<close>, \<open>os\<close> and \<open>json.load\<close>; \<open>Exception\<close>
  stands for any other class a wrapped component raises. \<open>InvalidArgument\<close> is the
  name the specification gives to the failure of the Chained Preprocessor's
  constructor, whose Python class is not among the source files.
\<close>

datatype exn =
    TypeError string
  | AttributeError string
  | KeyError string
  | OSError string
  | JSONDecodeError
  | InvalidArgument string
  | Exception string

text \<open>
  A method call on an object with mutable state returns what the call produced
  (\<open>Inl e\<close>: the exception \<open>e\<close> was raised; \<open>Inr r\<close>: \<open>r\<close> was returned)
  together with the state the object was left in. The state is kept on both
  branches: an exception does not undo the assignments made before it.
\<close>

type_synonym ('r, 's) outcome = "(exn + 'r) \<times> 's"

section \<open>Preprocessors\<close>

text \<open>
  The class \<open>Preprocessor\<close> is imported by \<open>Pipeline.py\<close> from
  \<open>dtaianomaly.preprocessing\<close>. The Pipeline calls two of its methods,
  \<open>fit_transform(X, y)\<close> and \<open>transform(X, y)\<close>, both giving a pair \<open>(X, y)\<close>,
  and formats it with \<open>str\<close>. A concrete preprocessor is a record of these
  methods over a state of its own; \<open>'a\<close> stands for \<open>np.ndarray\<close>, and the
  optional labels are an \<open>'a option\<close>.
\<close>

record ('a, 's) base_preprocessor =
  p_state :: 's
  p_fit_transform :: "'s \<Rightarrow> 'a \<Rightarrow> 'a option \<Rightarrow> ('a \<times> 'a option, 's) outcome"
  p_transform :: "'s \<Rightarrow> 'a \<Rightarrow> 'a option \<Rightarrow> ('a \<times> 'a option, 's) outcome"
  p_str :: "'s \<Rightarrow> string"

text \<open>
  A \<open>Preprocessor\<close> instance is a concrete preprocessor or a
  \<open>ChainedPreprocessor\<close>, which holds a list of \<open>Preprocessor\<close> instances (a
  chain is itself a \<open>Preprocessor\<close>, so chains nest).
\<close>

datatype ('a, 's) Preprocessor =
    Base "('a, 's) base_preprocessor"
  | ChainedPreprocessor "('a, 's) Preprocessor list"

text \<open>
  Modelled from the spec: the methods of \<open>ChainedPreprocessor\<close>, a class of
  \<open>dtaianomaly.preprocessing\<close> that is not among the source files. The
  specification (4.2): FitTransform calls each step's \<open>fit_transform\<close> with the
  output of the step before it (the original input for the first step) and
  returns the final \<open>(data, labels)\<close>; Transform does the same with each step's
  \<open>transform\<close>; a failure of a step is propagated and the steps after it are not
  run. The loop over the steps is \<open>fit_transform_steps\<close>: the step that raised
  and the steps before it keep the state their call left, the steps after it are
  untouched.
\<close>

fun fit_transform ::
    "('a, 's) Preprocessor \<Rightarrow> 'a \<Rightarrow> 'a option \<Rightarrow> ('a \<times> 'a option, ('a, 's) Preprocessor) outcome"
  and fit_transform_steps ::
    "('a, 's) Preprocessor list \<Rightarrow> 'a \<Rightarrow> 'a option
      \<Rightarrow> ('a \<times> 'a option, ('a, 's) Preprocessor list) outcome"
where
  "fit_transform (Base p) X y =
     (case p_fit_transform p (p_state p) X y of
        (r, s') \<Rightarrow> (r, Base (p\<lparr>p_state := s'\<rparr>)))"
| "fit_transform (ChainedPreprocessor ps) X y =
     (case fit_transform_steps ps X y of
        (r, ps') \<Rightarrow> (r, ChainedPreprocessor ps'))"
| "fit_transform_steps [] X y = (Inr (X, y), [])"
| "fit_transform_steps (p # ps) X y =
     (case fit_transform p X y of
        (Inl e, p') \<Rightarrow> (Inl e, p' # ps)
      | (Inr (X', y'), p') \<Rightarrow>
          (case fit_transform_steps ps X' y' of
             (r, ps') \<Rightarrow> (r, p' # ps')))"

fun transform ::
    "('a, 's) Preprocessor \<Rightarrow> 'a \<Rightarrow> 'a option \<Rightarrow> ('a \<times> 'a option, ('a, 's) Preprocessor) outcome"
  and transform_steps ::
    "('a, 's) Preprocessor list \<Rightarrow> 'a \<Rightarrow> 'a option
      \<Rightarrow> ('a \<times> 'a option, ('a, 's) Preprocessor list) outcome"
where
  "transform (Base p) X y =
     (case p_transform p (p_state p) X y of
        (r, s') \<Rightarrow> (r, Base (p\<lparr>p_state := s'\<rparr>)))"
| "transform (ChainedPreprocessor ps) X y =
     (case transform_steps ps X y of
        (r, ps') \<Rightarrow> (r, ChainedPreprocessor ps'))"
| "transform_steps [] X y = (Inr (X, y), [])"
| "transform_steps (p # ps) X y =
     (case transform p X y of
        (Inl e, p') \<Rightarrow> (Inl e, p' # ps)
      | (Inr (X', y'), p') \<Rightarrow>
          (case transform_steps ps X' y' of
             (r, ps') \<Rightarrow> (r, p' # ps')))"

text \<open>
  The specification's own words for C1: "manually folding \<open>fit_transform\<close> over the
  sequence in the same order". \<open>manual_fold_step\<close> is one step of that fold: the
  accumulator holds what the steps so far produced and the steps already visited;
  once a step has raised, the remaining steps are passed over unchanged.
  \<open>manual_fold\<close> is the left fold from the original input.
\<close>

fun manual_fold_step ::
    "('a \<times> 'a option, ('a, 's) Preprocessor list) outcome \<Rightarrow> ('a, 's) Preprocessor
      \<Rightarrow> ('a \<times> 'a option, ('a, 's) Preprocessor list) outcome"
where
  "manual_fold_step (Inl e, visited) p = (Inl e, visited @ [p])"
| "manual_fold_step (Inr (X, y), visited) p =
     (case fit_transform p X y of (r, p') \<Rightarrow> (r, visited @ [p']))"

definition manual_fold ::
    "('a, 's) Preprocessor list \<Rightarrow> 'a \<Rightarrow> 'a option
      \<Rightarrow> ('a \<times> 'a option, ('a, 's) Preprocessor list) outcome"
where
  "manual_fold ps X y = foldl manual_fold_step (Inr (X, y), []) ps"

section \<open>Detectors\<close>

text \<open>
  Modelled from the spec: \<open>BaseDetector\<close>, imported from
  \<open>dtaianomaly.anomaly_detection\<close> and not among the source files. The
  specification (3, 6): a Detector has \<open>fit(data, labels) -> self\<close>,
  \<open>score(data) -> scores\<close> (\<open>decision_function\<close> in the source) and a read-only
  supervision-mode tag. The tag is a field beside the mutable state, so that no
  method changes it.
\<close>

datatype Supervision = UNSUPERVISED | SEMI_SUPERVISED | SUPERVISED

record ('a, 't) BaseDetector =
  d_supervision :: Supervision
  d_state :: 't
  d_fit :: "'t \<Rightarrow> 'a \<Rightarrow> 'a option \<Rightarrow> (unit, 't) outcome"
  d_decision_function :: "'t \<Rightarrow> 'a \<Rightarrow> ('a, 't) outcome"
  d_str :: "'t \<Rightarrow> string"

text \<open>The calls \<open>detector.fit(X=X, y=y)\<close> and \<open>detector.decision_function(X)\<close>.\<close>

definition detector_fit ::
    "('a, 't) BaseDetector \<Rightarrow> 'a \<Rightarrow> 'a option \<Rightarrow> (unit, ('a, 't) BaseDetector) outcome"
where
  "detector_fit d X y =
     (case d_fit d (d_state d) X y of (r, t') \<Rightarrow> (r, d\<lparr>d_state := t'\<rparr>))"

definition detector_decision_function ::
    "('a, 't) BaseDetector \<Rightarrow> 'a \<Rightarrow> ('a, ('a, 't) BaseDetector) outcome"
where
  "detector_decision_function d X =
     (case d_decision_function d (d_state d) X of (r, t') \<Rightarrow> (r, d\<lparr>d_state := t'\<rparr>))"

section \<open>The Pipeline\<close>

text \<open>
  The arguments of \<open>Pipeline.__init__\<close> are arbitrary Python objects: the
  constructor inspects them with \<open>isinstance\<close>. \<open>pyobj\<close> has the instances of
  \<open>Preprocessor\<close>, the instances of \<open>BaseDetector\<close>, lists, and some objects
  that are neither.
\<close>

datatype ('a, 's, 't) pyobj =
    PreprocessorObj "('a, 's) Preprocessor"
  | DetectorObj "('a, 't) BaseDetector"
  | ListObj "('a, 's, 't) pyobj list"
  | NoneObj
  | IntObj int
  | StrObj string

fun as_Preprocessor :: "('a, 's, 't) pyobj \<Rightarrow> ('a, 's) Preprocessor option" where
  "as_Preprocessor (PreprocessorObj p) = Some p"
| "as_Preprocessor _ = None"

fun isinstance_Preprocessor :: "('a, 's, 't) pyobj \<Rightarrow> bool" where
  "isinstance_Preprocessor (PreprocessorObj p) = True"
| "isinstance_Preprocessor _ = False"

fun isinstance_BaseDetector :: "('a, 's, 't) pyobj \<Rightarrow> bool" where
  "isinstance_BaseDetector (DetectorObj d) = True"
| "isinstance_BaseDetector _ = False"

text \<open>
  Modelled from the spec: \<open>is_valid_list\<close>, imported from \<open>dtaianomaly.utils\<close> and
  not among the source files. Called as \<open>is_valid_list(preprocessor, Preprocessor)\<close>,
  it accepts a list whose every element is a \<open>Preprocessor\<close> (specification 4.1:
  "a sequence ... every element must satisfy the Preprocessor capability").
  Whether it accepts the empty list is not fixed by the specification, which
  asks only that construction fails for it; that verdict is the parameter
  \<open>accept_empty\<close>, and the results below hold for both values.
\<close>

fun is_valid_list :: "bool \<Rightarrow> ('a, 's, 't) pyobj \<Rightarrow> bool" where
  "is_valid_list accept_empty (ListObj xs) =
     (list_all isinstance_Preprocessor xs \<and> (accept_empty \<or> xs \<noteq> []))"
| "is_valid_list accept_empty _ = False"

text \<open>
  Modelled from the spec: the constructor of \<open>ChainedPreprocessor\<close>, not among the
  source files. The specification (4.2): "sequence must be non-empty; every
  element must satisfy Preprocessor; else InvalidArgument".
\<close>

definition ChainedPreprocessor_init ::
    "('a, 's, 't) pyobj list \<Rightarrow> exn + ('a, 's) Preprocessor"
where
  "ChainedPreprocessor_init xs =
     (if xs = [] then Inl (InvalidArgument ''empty sequence of preprocessors'')
      else case those (map as_Preprocessor xs) of
             None \<Rightarrow> Inl (InvalidArgument ''not a Preprocessor'')
           | Some ps \<Rightarrow> Inr (ChainedPreprocessor ps))"

text \<open>
  The attributes of a \<open>Pipeline\<close>: \<open>supervision\<close> is what
  \<open>super().__init__(detector.supervision)\<close> stores, \<open>preprocessor\<close> and \<open>detector\<close>
  are assigned by \<open>__init__\<close>.
\<close>

record ('a, 's, 't) Pipeline =
  supervision :: Supervision
  preprocessor :: "('a, 's) Preprocessor"
  detector :: "('a, 't) BaseDetector"

text \<open>
  \<open>Pipeline.__init__\<close>, in the order of the source: the check of the
  preprocessor argument, the check of the detector argument, the base class's
  constructor, then the wrapping of a list in a \<open>ChainedPreprocessor\<close>. The
  result is \<open>Inl\<close> of the exception raised (no object is produced) or \<open>Inr\<close> of
  the new Pipeline. In the last \<open>else\<close> branch the first check has left only
  \<open>Preprocessor\<close> instances; the model's remaining case cannot be reached.
\<close>

definition Pipeline_init ::
    "bool \<Rightarrow> ('a, 's, 't) pyobj \<Rightarrow> ('a, 's, 't) pyobj \<Rightarrow> exn + ('a, 's, 't) Pipeline"
where
  "Pipeline_init accept_empty pre det =
     (if \<not> (isinstance_Preprocessor pre \<or> is_valid_list accept_empty pre)
      then Inl (TypeError ''preprocessor expects a Preprocessor object or list of Preprocessors'')
      else case det of
        DetectorObj d \<Rightarrow>
          (case pre of
             ListObj xs \<Rightarrow>
               (case ChainedPreprocessor_init xs of
                  Inl e \<Rightarrow> Inl e
                | Inr chain \<Rightarrow>
                    Inr \<lparr>supervision = d_supervision d, preprocessor = chain, detector = d\<rparr>)
           | PreprocessorObj p \<Rightarrow>
               Inr \<lparr>supervision = d_supervision d, preprocessor = p, detector = d\<rparr>
           | _ \<Rightarrow>
               Inl (TypeError ''preprocessor expects a Preprocessor object or list of Preprocessors''))
      | _ \<Rightarrow> Inl (TypeError ''detector expects a BaseDetector object''))"

text \<open>
  \<open>Pipeline.fit\<close>: \<open>X, y = self.preprocessor.fit_transform(X=X, y=y)\<close>, then
  \<open>self.detector.fit(X=X, y=y)\<close>, then \<open>return self\<close>. The outcome pairs what
  the call produced with the receiver as the call left it; \<open>return self\<close> returns
  the receiver, so on success both components are the same object.
\<close>

definition Pipeline_fit ::
    "('a, 's, 't) Pipeline \<Rightarrow> 'a \<Rightarrow> 'a option
      \<Rightarrow> (('a, 's, 't) Pipeline, ('a, 's, 't) Pipeline) outcome"
where
  "Pipeline_fit self X y =
     (case fit_transform (preprocessor self) X y of
        (Inl e, pre') \<Rightarrow> (Inl e, self\<lparr>preprocessor := pre'\<rparr>)
      | (Inr (X', y'), pre') \<Rightarrow>
          (case detector_fit (detector self) X' y' of
             (Inl e, det') \<Rightarrow> (Inl e, self\<lparr>preprocessor := pre', detector := det'\<rparr>)
           | (Inr u, det') \<Rightarrow>
               (Inr (self\<lparr>preprocessor := pre', detector := det'\<rparr>),
                self\<lparr>preprocessor := pre', detector := det'\<rparr>)))"

text \<open>
  \<open>Pipeline.decision_function\<close>: \<open>X, _ = self.preprocessor.transform(X=X, y=None)\<close>,
  then \<open>return self.detector.decision_function(X)\<close>.
\<close>

definition Pipeline_decision_function ::
    "('a, 's, 't) Pipeline \<Rightarrow> 'a \<Rightarrow> ('a, ('a, 's, 't) Pipeline) outcome"
where
  "Pipeline_decision_function self X =
     (case transform (preprocessor self) X None of
        (Inl e, pre') \<Rightarrow> (Inl e, self\<lparr>preprocessor := pre'\<rparr>)
      | (Inr (X', y'), pre') \<Rightarrow>
          (case detector_decision_function (detector self) X' of
             (r, det') \<Rightarrow> (r, self\<lparr>preprocessor := pre', detector := det'\<rparr>)))"

text \<open>
  Python's \<open>sep.join(parts)\<close>.
\<close>

fun join :: "string \<Rightarrow> string list \<Rightarrow> string" where
  "join sep [] = []"
| "join sep [x] = x"
| "join sep (x # y # ys) = x @ sep @ join sep (y # ys)"

text \<open>
  \<open>str(preprocessor)\<close>. A concrete preprocessor formats itself (\<open>p_str\<close>).
  Modelled from the spec: \<open>ChainedPreprocessor.__str__\<close>, not among the source
  files. The specification (4.1): "a Chained Preprocessor should render all of
  its steps". The steps' descriptions are joined in order; the separator
  between two steps is not given by the specification and is the parameter
  \<open>sep\<close>.
\<close>

fun Preprocessor_str :: "string \<Rightarrow> ('a, 's) Preprocessor \<Rightarrow> string" where
  "Preprocessor_str sep (Base p) = p_str p (p_state p)"
| "Preprocessor_str sep (ChainedPreprocessor ps) = join sep (map (Preprocessor_str sep) ps)"

definition BaseDetector_str :: "('a, 't) BaseDetector \<Rightarrow> string" where
  "BaseDetector_str d = d_str d (d_state d)"

text \<open>\<open>Pipeline.__str__\<close>: \<open>f'{self.preprocessor}->{self.detector}'\<close>.\<close>

definition Pipeline_str :: "string \<Rightarrow> ('a, 's, 't) Pipeline \<Rightarrow> string" where
  "Pipeline_str sep self =
     Preprocessor_str sep (preprocessor self) @ ''->'' @ BaseDetector_str (detector self)"

text \<open>
  The specification's classification of failures (7): \<open>InvalidArgument\<close> is a
  construction-time validation failure, which \<open>Pipeline.__init__\<close> raises as
  Python's \<open>TypeError\<close>.
\<close>

fun is_InvalidArgument :: "exn \<Rightarrow> bool" where
  "is_InvalidArgument (TypeError msg) = True"
| "is_InvalidArgument (InvalidArgument msg) = True"
| "is_InvalidArgument _ = False"

fun fails_with :: "(exn \<Rightarrow> bool) \<Rightarrow> exn + 'r \<Rightarrow> bool" where
  "fails_with kind (Inl e) = kind e"
| "fails_with kind (Inr r) = False"

text \<open>
  The specification's words for the arguments C2 is about: "a sequence of such
  values" is a list whose every element is a \<open>Preprocessor\<close>.
\<close>

fun is_sequence_of_Preprocessors :: "('a, 's, 't) pyobj \<Rightarrow> bool" where
  "is_sequence_of_Preprocessors (ListObj xs) = list_all isinstance_Preprocessor xs"
| "is_sequence_of_Preprocessors _ = False"

text \<open>
  The invariant of C4: the Pipeline's own \<open>supervision\<close> attribute is the
  supervision of the detector it wraps.
\<close>

definition supervision_coherent :: "('a, 's, 't) Pipeline \<Rightarrow> bool" where
  "supervision_coherent self = (supervision self = d_supervision (detector self))"

section \<open>Stub components\<close>

text \<open>
  The stubs of the specification's testable properties (8), over arrays that are
  lists of reals. \<open>drop_last\<close> drops the last element of its input (\<open>X[:-1]\<close>)
  and counts in its state how often it was fitted; \<open>identity_stub\<close> changes
  nothing; \<open>constant_detector\<close>, named \<open>D\<close>, remembers the labels it was fitted
  on and scores \<open>1.0\<close> per element; \<open>failing_detector\<close> raises in both methods.
\<close>

definition drop_last :: "(real list, nat) base_preprocessor" where
  "drop_last =
     \<lparr>p_state = 0,
      p_fit_transform = (\<lambda>s X y. (Inr (butlast X, y), Suc s)),
      p_transform = (\<lambda>s X y. (Inr (butlast X, y), s)),
      p_str = (\<lambda>s. ''DropLast'')\<rparr>"

definition identity_stub :: "(real list, nat) base_preprocessor" where
  "identity_stub =
     \<lparr>p_state = 0,
      p_fit_transform = (\<lambda>s X y. (Inr (X, y), Suc s)),
      p_transform = (\<lambda>s X y. (Inr (X, y), s)),
      p_str = (\<lambda>s. ''Identity'')\<rparr>"

definition constant_detector :: "(real list, real list option) BaseDetector" where
  "constant_detector =
     \<lparr>d_supervision = UNSUPERVISED,
      d_state = None,
      d_fit = (\<lambda>t X y. (Inr (), y)),
      d_decision_function = (\<lambda>t X. (Inr (map (\<lambda>x. 1) X), t)),
      d_str = (\<lambda>t. ''D'')\<rparr>"

definition failing_detector :: "(real list, real list option) BaseDetector" where
  "failing_detector =
     \<lparr>d_supervision = SUPERVISED,
      d_state = None,
      d_fit = (\<lambda>t X y. (Inl (Exception ''fit failed''), t)),
      d_decision_function = (\<lambda>t X. (Inl (Exception ''not fitted''), t)),
      d_str = (\<lambda>t. ''Failing'')\<rparr>"

definition stub_pipeline :: "(real list, nat, real list option) Pipeline" where
  "stub_pipeline =
     \<lparr>supervision = UNSUPERVISED, preprocessor = Base drop_last, detector = constant_detector\<rparr>"

definition failing_pipeline :: "(real list, nat, real list option) Pipeline" where
  "failing_pipeline =
     \<lparr>supervision = SUPERVISED, preprocessor = Base drop_last, detector = failing_detector\<rparr>"

definition failing_preprocessor :: "(real list, nat) base_preprocessor" where
  "failing_preprocessor =
     \<lparr>p_state = 0,
      p_fit_transform = (\<lambda>s X y. (Inl (Exception ''cannot fit''), Suc s)),
      p_transform = (\<lambda>s X y. (Inl (Exception ''not fitted''), s)),
      p_str = (\<lambda>s. ''Failing'')\<rparr>"

section \<open>Configurations\<close>

text \<open>
  The values of a configuration (\<open>Dict[str, Any]\<close>, or what \<open>json.load\<close> gives):
  the scalars the two workflow functions read. A dictionary is a map from keys
  to values; a loaded JSON document is a dictionary or some other value.
\<close>

datatype pyval = PyNone | PyBool bool | PyStr string

type_synonym pydict = "string \<rightharpoonup> pyval"

datatype json_doc = JsonObject pydict | JsonValue pyval

subsection \<open>\<open>handle_algorithm_configuration\<close>\<close>

text \<open>
  \<open>AlgorithmConfigurationType = Union[Dict[str, Any], str]\<close>: a dictionary, or
  the path of a JSON file.
\<close>

datatype AlgorithmConfigurationType =
    ConfigurationDict pydict
  | ConfigurationPath string

text \<open>
  The first statement of the function: a string is opened and parsed.
  \<open>read_json\<close> is the file system seen through \<open>open\<close> and \<open>json.load\<close>: for a
  path, the exception they raise or the document they give.
\<close>

definition read_configuration ::
    "(string \<Rightarrow> exn + json_doc) \<Rightarrow> AlgorithmConfigurationType \<Rightarrow> exn + json_doc"
where
  "read_configuration read_json algorithm_configuration =
     (case algorithm_configuration of
        ConfigurationPath path \<Rightarrow> read_json path
      | ConfigurationDict d \<Rightarrow> Inr (JsonObject d))"

text \<open>
  \<open>handle_algorithm_configuration\<close>. The module \<open>src.anomaly_detection\<close> is not
  among the source files; \<open>registry\<close> is its namespace, the parameter that maps
  the name of each detector class it defines to that class's \<open>load\<close>
  (names the module binds to other objects are left out). The
  branches, in the order of the source: the subscript
  \<open>algorithm_configuration['anomaly_detector']\<close> raises \<open>TypeError\<close> on a
  document that is not a dictionary and \<open>KeyError\<close> on a missing key;
  \<open>getattr\<close> raises \<open>TypeError\<close> for a name that is not a string and
  \<open>AttributeError\<close> for a name the module does not have; the result is
  whatever \<open>load(parameters=algorithm_configuration)\<close> returns or raises.
\<close>

definition handle_algorithm_configuration ::
    "(string \<Rightarrow> exn + json_doc) \<Rightarrow> (string \<rightharpoonup> (pydict \<Rightarrow> exn + 'd))
      \<Rightarrow> AlgorithmConfigurationType \<Rightarrow> exn + 'd"
where
  "handle_algorithm_configuration read_json registry algorithm_configuration =
     (case read_configuration read_json algorithm_configuration of
        Inl e \<Rightarrow> Inl e
      | Inr (JsonValue v) \<Rightarrow> Inl (TypeError ''configuration is not subscriptable by a key'')
      | Inr (JsonObject d) \<Rightarrow>
          (case d ''anomaly_detector'' of
             None \<Rightarrow> Inl (KeyError ''anomaly_detector'')
           | Some (PyStr name) \<Rightarrow>
               (case registry name of
                  None \<Rightarrow> Inl (AttributeError name)
                | Some load \<Rightarrow> load d)
           | Some other \<Rightarrow> Inl (TypeError ''attribute name must be string'')))"

text \<open>
  The specification's classification (7): \<open>UnknownAlgorithm\<close> is "configuration
  names a detector class not present in the registry", which the lookup with
  \<open>getattr\<close> raises as Python's \<open>AttributeError\<close>.
\<close>

fun is_UnknownAlgorithm :: "exn \<Rightarrow> bool" where
  "is_UnknownAlgorithm (AttributeError name) = True"
| "is_UnknownAlgorithm _ = False"

subsection \<open>\<open>handle_output_configuration\<close>\<close>

text \<open>
  An \<open>OutputConfiguration\<close> object is its instance attributes: \<open>__init__\<close> sets
  one per keyword argument. The class gives defaults to every field but
  \<open>directory_path\<close> and \<open>algorithm_name\<close>, which are only annotated.
\<close>

datatype OutputConfiguration = OutputConfiguration (attributes: pydict)

definition class_attributes :: pydict where
  "class_attributes = map_of
     [(''verbose'', PyBool False),
      (''trace_time'', PyBool False),
      (''trace_memory'', PyBool False),
      (''print_results'', PyBool False),
      (''save_results'', PyBool False),
      (''constantly_save_results'', PyBool False),
      (''results_file'', PyStr ''results.csv''),
      (''save_anomaly_scores_plot'', PyBool False),
      (''anomaly_scores_plots_directory'', PyStr ''anomaly_score_plots''),
      (''anomaly_scores_plots_file_format'', PyStr ''svg''),
      (''anomaly_scores_plots_show_anomaly_scores'', PyStr ''overlay''),
      (''anomaly_scores_plots_show_ground_truth'', PyNone),
      (''save_anomaly_scores'', PyBool False),
      (''anomaly_scores_directory'', PyStr ''anomaly_scores''),
      (''invalid_train_type_raise_error'', PyBool True)]"

text \<open>
  The properties of the class. They have no setter, so \<open>setattr\<close> on one of
  these names raises \<open>AttributeError\<close>.
\<close>

definition property_names :: "string list" where
  "property_names =
     [''directory'', ''results_path'', ''anomaly_score_plots_directory_path'',
      ''anomaly_scores_directory_path'']"

text \<open>
  Reading an attribute: the instance's own value, else the class's default,
  else \<open>AttributeError\<close>.
\<close>

definition getattr :: "OutputConfiguration \<Rightarrow> string \<Rightarrow> exn + pyval" where
  "getattr self name =
     (case attributes self name of
        Some v \<Rightarrow> Inr v
      | None \<Rightarrow>
          (case class_attributes name of
             Some v \<Rightarrow> Inr v
           | None \<Rightarrow> Inl (AttributeError name)))"

text \<open>How an f-string formats a value (\<open>str\<close>), and its truth value in an \<open>if\<close>.\<close>

fun py_str :: "pyval \<Rightarrow> string" where
  "py_str PyNone = ''None''"
| "py_str (PyBool b) = (if b then ''True'' else ''False'')"
| "py_str (PyStr s) = s"

fun truthy :: "pyval \<Rightarrow> bool" where
  "truthy PyNone = False"
| "truthy (PyBool b) = b"
| "truthy (PyStr s) = (s \<noteq> [])"

text \<open>
  The keyword arguments of a call, and the items of the dictionary unpacked
  into it with \<open>**\<close>: keys with their values, in insertion order (the order in
  which \<open>kwargs.items()\<close> yields them). The keys of a dictionary are distinct.
\<close>

type_synonym pyitems = "(string \<times> pyval) list"

text \<open>
  \<open>setattr(self, key, value)\<close> on an \<open>OutputConfiguration\<close> whose instance
  attributes are \<open>attrs\<close>. A property has no setter and \<open>__weakref__\<close> is not
  writable (\<open>AttributeError\<close>); \<open>__class__\<close> takes only a class and
  \<open>__dict__\<close> only a dictionary, which no \<open>pyval\<close> is (\<open>TypeError\<close>); every
  other name becomes an instance attribute.
\<close>

definition setattr :: "pydict \<Rightarrow> string \<Rightarrow> pyval \<Rightarrow> exn + pydict" where
  "setattr attrs name v =
     (if name \<in> set property_names \<or> name = ''__weakref__''
      then Inl (AttributeError name)
      else if name = ''__class__'' \<or> name = ''__dict__''
      then Inl (TypeError name)
      else Inr (attrs(name \<mapsto> v)))"

text \<open>
  The loop of \<open>__init__\<close>: \<open>for key, value in kwargs.items(): setattr(self, key, value)\<close>.
  It stops at the first key that cannot be set.
\<close>

fun set_attributes :: "pydict \<Rightarrow> pyitems \<Rightarrow> exn + pydict" where
  "set_attributes attrs [] = Inr attrs"
| "set_attributes attrs ((key, v) # kwargs) =
     (case setattr attrs key v of
        Inl e \<Rightarrow> Inl e
      | Inr attrs' \<Rightarrow> set_attributes attrs' kwargs)"

text \<open>
  \<open>OutputConfiguration.__init__(self, **kwargs)\<close>, called with the keyword
  arguments \<open>kwargs\<close>. A keyword named \<open>self\<close> collides with the receiver, and
  the call raises \<open>TypeError\<close> before the body runs; otherwise the loop sets
  one attribute per keyword on the new object.
\<close>

definition OutputConfiguration_init :: "pyitems \<Rightarrow> exn + OutputConfiguration" where
  "OutputConfiguration_init kwargs =
     (if ''self'' \<in> set (map fst kwargs)
      then Inl (TypeError ''multiple values for argument self'')
      else case set_attributes Map.empty kwargs of
             Inl e \<Rightarrow> Inl e
           | Inr attrs \<Rightarrow> Inr (OutputConfiguration attrs))"

text \<open>
  The properties \<open>directory\<close>, \<open>anomaly_score_plots_directory_path\<close> and
  \<open>anomaly_scores_directory_path\<close>: f-strings over the attributes, read from
  left to right.
\<close>

definition directory :: "OutputConfiguration \<Rightarrow> exn + string" where
  "directory self =
     (case getattr self ''directory_path'' of
        Inl e \<Rightarrow> Inl e
      | Inr directory_path \<Rightarrow>
          (case getattr self ''algorithm_name'' of
             Inl e \<Rightarrow> Inl e
           | Inr algorithm_name \<Rightarrow>
               Inr (py_str directory_path @ ''/'' @ py_str algorithm_name)))"

definition anomaly_score_plots_directory_path :: "OutputConfiguration \<Rightarrow> exn + string" where
  "anomaly_score_plots_directory_path self =
     (case directory self of
        Inl e \<Rightarrow> Inl e
      | Inr dir \<Rightarrow>
          (case getattr self ''anomaly_scores_plots_directory'' of
             Inl e \<Rightarrow> Inl e
           | Inr sub \<Rightarrow> Inr (dir @ ''/'' @ py_str sub)))"

definition anomaly_scores_directory_path :: "OutputConfiguration \<Rightarrow> exn + string" where
  "anomaly_scores_directory_path self =
     (case directory self of
        Inl e \<Rightarrow> Inl e
      | Inr dir \<Rightarrow>
          (case getattr self ''anomaly_scores_directory'' of
             Inl e \<Rightarrow> Inl e
           | Inr sub \<Rightarrow> Inr (dir @ ''/'' @ py_str sub)))"

text \<open>
  The operating system, as far as the function uses it, over a file-system
  state \<open>'fs\<close>: \<open>os.makedirs(path, exist_ok=True)\<close>, \<open>os.path.exists(path)\<close>,
  \<open>os.mkdir(path)\<close>, and \<open>open\<close> with \<open>json.load\<close>. It is a parameter: the
  calls that change the file system give the new state or the exception raised.
  What \<open>json.load\<close> gives is a dictionary, with its items in the order of the
  file, or some other value.
\<close>

datatype loaded_json = LoadedDict pyitems | LoadedValue pyval

record 'fs os_calls =
  os_makedirs :: "'fs \<Rightarrow> string \<Rightarrow> exn + 'fs"
  os_path_exists :: "'fs \<Rightarrow> string \<Rightarrow> bool"
  os_mkdir :: "'fs \<Rightarrow> string \<Rightarrow> exn + 'fs"
  os_load_json :: "'fs \<Rightarrow> string \<Rightarrow> exn + loaded_json"

text \<open>
  The first argument: an \<open>OutputConfiguration\<close> object, or a
  \<open>PlainOutputConfiguration\<close> (a dictionary or the path of a JSON file).
\<close>

datatype output_configuration_argument =
    Built OutputConfiguration
  | Plain pyitems
  | Path string

text \<open>
  \<open>OutputConfiguration(**plain_output_configuration, algorithm_name=algorithm_name)\<close>:
  a dictionary that already has the key \<open>algorithm_name\<close> makes the call raise
  \<open>TypeError\<close> (two values for one keyword) before \<open>__init__\<close> is entered;
  otherwise the name is the last of the keyword arguments.
\<close>

definition construct_output_configuration :: "pyitems \<Rightarrow> string \<Rightarrow> exn + OutputConfiguration" where
  "construct_output_configuration plain algorithm_name =
     (if ''algorithm_name'' \<in> set (map fst plain)
      then Inl (TypeError ''multiple values for keyword argument algorithm_name'')
      else OutputConfiguration_init (plain @ [(''algorithm_name'', PyStr algorithm_name)]))"

text \<open>
  The first \<open>if\<close> of \<open>handle_output_configuration\<close>: an object whose type is
  \<open>OutputConfiguration\<close> is used as it is; a string is opened and parsed, and
  the dictionary is turned into an object.
\<close>

definition resolve_output_configuration ::
    "'fs os_calls \<Rightarrow> 'fs \<Rightarrow> output_configuration_argument \<Rightarrow> string
      \<Rightarrow> exn + OutputConfiguration"
where
  "resolve_output_configuration os fs plain_output_configuration algorithm_name =
     (case plain_output_configuration of
        Built output_configuration \<Rightarrow> Inr output_configuration
      | Plain d \<Rightarrow> construct_output_configuration d algorithm_name
      | Path path \<Rightarrow>
          (case os_load_json os fs path of
             Inl e \<Rightarrow> Inl e
           | Inr (LoadedDict d) \<Rightarrow> construct_output_configuration d algorithm_name
           | Inr (LoadedValue v) \<Rightarrow> Inl (TypeError ''argument after ** must be a mapping'')))"

text \<open>
  \<open>if flag and not os.path.exists(path): os.mkdir(path)\<close>, where \<open>flag\<close> is
  an attribute and \<open>path\<close> a property of the configuration.
\<close>

definition mkdir_if_wanted ::
    "'fs os_calls \<Rightarrow> 'fs \<Rightarrow> OutputConfiguration \<Rightarrow> string
      \<Rightarrow> (OutputConfiguration \<Rightarrow> exn + string) \<Rightarrow> exn + 'fs"
where
  "mkdir_if_wanted os fs self flag path_of =
     (case getattr self flag of
        Inl e \<Rightarrow> Inl e
      | Inr wanted \<Rightarrow>
          (if truthy wanted
           then (case path_of self of
                   Inl e \<Rightarrow> Inl e
                 | Inr path \<Rightarrow>
                     (if os_path_exists os fs path then Inr fs else os_mkdir os fs path))
           else Inr fs))"

text \<open>
  The rest of the function: the directory of the configuration is created,
  then the directory of the plots and the directory of the scores where they
  are asked for.
\<close>

definition create_directories ::
    "'fs os_calls \<Rightarrow> 'fs \<Rightarrow> OutputConfiguration \<Rightarrow> exn + 'fs"
where
  "create_directories os fs self =
     (case directory self of
        Inl e \<Rightarrow> Inl e
      | Inr dir \<Rightarrow>
          (case os_makedirs os fs dir of
             Inl e \<Rightarrow> Inl e
           | Inr fs1 \<Rightarrow>
               (case mkdir_if_wanted os fs1 self ''save_anomaly_scores_plot''
                       anomaly_score_plots_directory_path of
                  Inl e \<Rightarrow> Inl e
                | Inr fs2 \<Rightarrow>
                    mkdir_if_wanted os fs2 self ''save_anomaly_scores''
                      anomaly_scores_directory_path)))"

text \<open>
  \<open>handle_output_configuration\<close>: the exception raised, or the configuration
  returned together with the file system the call left.
\<close>

definition handle_output_configuration ::
    "'fs os_calls \<Rightarrow> 'fs \<Rightarrow> output_configuration_argument \<Rightarrow> string
      \<Rightarrow> exn + (OutputConfiguration \<times> 'fs)"
where
  "handle_output_configuration os fs plain_output_configuration algorithm_name =
     (case resolve_output_configuration os fs plain_output_configuration algorithm_name of
        Inl e \<Rightarrow> Inl e
      | Inr output_configuration \<Rightarrow>
          (case create_directories os fs output_configuration of
             Inl e \<Rightarrow> Inl e
           | Inr fs' \<Rightarrow> Inr (output_configuration, fs')))"



text \<open>A module namespace for the examples, with one detector class.\<close>

definition example_module :: "string \<rightharpoonup> (pydict \<Rightarrow> exn + string)" where
  "example_module =
     [''IForest'' \<mapsto>
        (\<lambda>parameters. case parameters ''n_estimators'' of
                         None \<Rightarrow> Inl (KeyError ''n_estimators'')
                       | Some v \<Rightarrow> Inr (''IForest('' @ py_str v @ '')''))]"

definition unknown_configuration :: pydict where
  "unknown_configuration = [''anomaly_detector'' \<mapsto> PyStr ''LOF'']"

definition known_configuration :: pydict where
  "known_configuration =
     [''anomaly_detector'' \<mapsto> PyStr ''IForest'', ''n_estimators'' \<mapsto> PyStr ''100'']"

section \<open>Properties of the Chained Preprocessor\<close>

lemma manual_fold_step_raised:
  "foldl manual_fold_step (Inl e, visited) ps = (Inl e, visited @ ps)"
  by (induction ps arbitrary: visited) simp_all

lemma foldl_manual_fold_step:
  "foldl manual_fold_step (Inr (X, y), visited) ps =
     (case fit_transform_steps ps X y of (r, ps') \<Rightarrow> (r, visited @ ps'))"
proof (induction ps arbitrary: X y visited)
  case Nil
  show ?case by simp
next
  case (Cons p ps)
  obtain r p' where call: "fit_transform p X y = (r, p')"
    by (cases "fit_transform p X y")
  show ?case
  proof (cases r)
    case (Inl e)
    with call show ?thesis
      by (simp add: manual_fold_step_raised)
  next
    case (Inr out)
    obtain X' y' where out: "out = (X', y')"
      by (cases out)
    from call Inr out Cons.IH [of X' y' "visited @ [p']"] show ?thesis
      by (simp split: prod.splits)
  qed
qed

text \<open>
  C1. The Chained Preprocessor's \<open>fit_transform\<close> is the left fold of
  \<open>fit_transform\<close> over its steps in construction order, started from the
  original \<open>(data, labels)\<close>: the same result (the final pair, or the exception
  of the first step that raised) and the same steps afterwards. It holds for
  every sequence, the non-empty ones in particular.
\<close>

theorem chained_fit_transform_is_left_fold:
  "fit_transform (ChainedPreprocessor ps) X y =
     (case manual_fold ps X y of (r, ps') \<Rightarrow> (r, ChainedPreprocessor ps'))"
  by (simp add: manual_fold_def foldl_manual_fold_step [of X y "[]" ps] split: prod.splits)

theorem chained_fit_transform_is_left_fold_witness:
  "fit_transform (ChainedPreprocessor [Base drop_last, Base identity_stub]) [1, 2, 3] None =
     (Inr ([1, 2], None),
      ChainedPreprocessor
        [Base (drop_last\<lparr>p_state := 1\<rparr>), Base (identity_stub\<lparr>p_state := 1\<rparr>)])
   \<and> manual_fold [Base drop_last, Base identity_stub] [1, 2, 3] None =
       (Inr ([1, 2], None),
        [Base (drop_last\<lparr>p_state := 1\<rparr>), Base (identity_stub\<lparr>p_state := 1\<rparr>)])"
  using chained_fit_transform_is_left_fold
          [where ps = "[Base drop_last, Base identity_stub]" and X = "[1, 2, 3]" and y = None]
  by (simp add: manual_fold_def drop_last_def identity_stub_def)

section \<open>Construction of a Pipeline\<close>

lemma those_map_as_Preprocessor:
  "those (map (as_Preprocessor \<circ> PreprocessorObj) ps) = Some ps"
  by (induction ps) simp_all

lemma list_all_isinstance_map:
  "list_all isinstance_Preprocessor (map PreprocessorObj ps)"
  by (induction ps) simp_all

lemma is_valid_list_sequence:
  "is_valid_list accept_empty pre \<Longrightarrow> is_sequence_of_Preprocessors pre"
  by (cases pre) simp_all

text \<open>
  C2. When the preprocessor argument is neither a \<open>Preprocessor\<close> nor a list of
  \<open>Preprocessor\<close>s, or the detector argument is not a \<open>BaseDetector\<close>,
  \<open>Pipeline.__init__\<close> raises one of its two \<open>TypeError\<close>s (the specification's
  \<open>InvalidArgument\<close>) and produces no Pipeline, whatever \<open>is_valid_list\<close> says
  about the empty list.
\<close>

theorem Pipeline_init_rejects_invalid_arguments:
  assumes "(\<not> isinstance_Preprocessor pre \<and> \<not> is_sequence_of_Preprocessors pre)
           \<or> \<not> isinstance_BaseDetector det"
  shows "(Pipeline_init accept_empty pre det =
            Inl (TypeError ''preprocessor expects a Preprocessor object or list of Preprocessors'')
          \<or> Pipeline_init accept_empty pre det =
            Inl (TypeError ''detector expects a BaseDetector object''))
         \<and> fails_with is_InvalidArgument (Pipeline_init accept_empty pre det)"
proof (cases "isinstance_Preprocessor pre \<or> is_valid_list accept_empty pre")
  case False
  then show ?thesis by (simp add: Pipeline_init_def)
next
  case True
  with assms is_valid_list_sequence [of accept_empty pre]
  have "\<not> isinstance_BaseDetector det" by blast
  with True show ?thesis
    by (cases det) (simp_all add: Pipeline_init_def)
qed

theorem Pipeline_init_rejects_invalid_arguments_witness:
  "\<not> isinstance_Preprocessor (IntObj 3 :: (real list, nat, real list option) pyobj)
   \<and> \<not> is_sequence_of_Preprocessors (IntObj 3 :: (real list, nat, real list option) pyobj)
   \<and> Pipeline_init True (IntObj 3) (DetectorObj constant_detector) =
       Inl (TypeError ''preprocessor expects a Preprocessor object or list of Preprocessors'')"
  using Pipeline_init_rejects_invalid_arguments
          [of "IntObj 3" "DetectorObj constant_detector" True]
  by (simp add: Pipeline_init_def)

text \<open>
  C3. A Pipeline built from the empty list fails in the constructor with an
  \<open>InvalidArgument\<close> failure (the \<open>TypeError\<close> of the first check when
  \<open>is_valid_list\<close> refuses the empty list, else the failure of the Chained
  Preprocessor's constructor, or the detector's \<open>TypeError\<close>); from a non-empty
  list of \<open>Preprocessor\<close>s and a \<open>BaseDetector\<close>, construction succeeds and the
  Pipeline's preprocessor is the \<open>ChainedPreprocessor\<close> of that list.
\<close>

theorem Pipeline_init_of_sequence:
  "fails_with is_InvalidArgument (Pipeline_init accept_empty (ListObj []) det)
   \<and> (ps \<noteq> [] \<longrightarrow>
        Pipeline_init accept_empty (ListObj (map PreprocessorObj ps)) (DetectorObj d) =
          Inr \<lparr>supervision = d_supervision d, preprocessor = ChainedPreprocessor ps,
               detector = d\<rparr>)"
proof
  show "fails_with is_InvalidArgument (Pipeline_init accept_empty (ListObj []) det)"
    by (cases det) (simp_all add: Pipeline_init_def ChainedPreprocessor_init_def)
next
  show "ps \<noteq> [] \<longrightarrow>
        Pipeline_init accept_empty (ListObj (map PreprocessorObj ps)) (DetectorObj d) =
          Inr \<lparr>supervision = d_supervision d, preprocessor = ChainedPreprocessor ps,
               detector = d\<rparr>"
    by (simp add: Pipeline_init_def ChainedPreprocessor_init_def those_map_as_Preprocessor
        list_all_isinstance_map)
qed

theorem Pipeline_init_of_sequence_witness:
  "[Base drop_last, Base identity_stub] \<noteq> []
   \<and> Pipeline_init False
        (ListObj [PreprocessorObj (Base drop_last), PreprocessorObj (Base identity_stub)])
        (DetectorObj constant_detector) =
       Inr \<lparr>supervision = UNSUPERVISED,
            preprocessor = ChainedPreprocessor [Base drop_last, Base identity_stub],
            detector = constant_detector\<rparr>
   \<and> Pipeline_init False (ListObj []) (DetectorObj constant_detector) =
       (Inl (TypeError ''preprocessor expects a Preprocessor object or list of Preprocessors'')
         :: exn + (real list, nat, real list option) Pipeline)
   \<and> Pipeline_init True (ListObj []) (DetectorObj constant_detector) =
       (Inl (InvalidArgument ''empty sequence of preprocessors'')
         :: exn + (real list, nat, real list option) Pipeline)"
  using Pipeline_init_of_sequence
          [of False "DetectorObj constant_detector" "[Base drop_last, Base identity_stub]"
              constant_detector]
  by (simp add: Pipeline_init_def ChainedPreprocessor_init_def constant_detector_def)

lemma Pipeline_init_Inr:
  assumes "Pipeline_init accept_empty pre det = Inr pl"
  shows "\<exists>d. det = DetectorObj d \<and> detector pl = d \<and> supervision pl = d_supervision d"
  using assms
  by (auto simp: Pipeline_init_def split: if_splits pyobj.splits sum.splits)

lemma detector_fit_supervision:
  "detector_fit d X y = (r, d') \<Longrightarrow> d_supervision d' = d_supervision d"
  by (auto simp: detector_fit_def split: prod.splits)

lemma detector_decision_function_supervision:
  "detector_decision_function d X = (r, d') \<Longrightarrow> d_supervision d' = d_supervision d"
  by (auto simp: detector_decision_function_def split: prod.splits)

lemma Pipeline_fit_supervision:
  "supervision (snd (Pipeline_fit self X y)) = supervision self
   \<and> d_supervision (detector (snd (Pipeline_fit self X y))) = d_supervision (detector self)"
  by (auto simp: Pipeline_fit_def split: prod.splits sum.splits
      dest: detector_fit_supervision)

lemma Pipeline_decision_function_supervision:
  "supervision (snd (Pipeline_decision_function self X)) = supervision self
   \<and> d_supervision (detector (snd (Pipeline_decision_function self X))) =
       d_supervision (detector self)"
  by (auto simp: Pipeline_decision_function_def split: prod.splits sum.splits
      dest: detector_decision_function_supervision)

text \<open>
  C4. A Pipeline that \<open>__init__\<close> produced wraps the detector it was given and
  reports that detector's supervision, whatever the preprocessor argument was;
  \<open>fit\<close> and \<open>decision_function\<close> leave the Pipeline's supervision as it was
  and keep it equal to the wrapped detector's, on success and on failure.
\<close>

theorem Pipeline_supervision_is_detectors:
  "(Pipeline_init accept_empty pre det = Inr pl \<longrightarrow>
      det = DetectorObj (detector pl) \<and> supervision_coherent pl)
   \<and> (supervision_coherent self \<longrightarrow>
        supervision_coherent (snd (Pipeline_fit self X y))
        \<and> supervision (snd (Pipeline_fit self X y)) = supervision self
        \<and> supervision_coherent (snd (Pipeline_decision_function self X))
        \<and> supervision (snd (Pipeline_decision_function self X)) = supervision self)"
  using Pipeline_init_Inr [of accept_empty pre det pl]
    Pipeline_fit_supervision [of self X y] Pipeline_decision_function_supervision [of self X]
  by (auto simp: supervision_coherent_def)

theorem Pipeline_supervision_is_detectors_witness:
  "Pipeline_init True (PreprocessorObj (Base drop_last)) (DetectorObj constant_detector) =
     Inr stub_pipeline
   \<and> supervision_coherent stub_pipeline
   \<and> supervision_coherent (snd (Pipeline_fit stub_pipeline [0, 0] None))
   \<and> supervision (snd (Pipeline_fit stub_pipeline [0, 0] None)) = UNSUPERVISED
   \<and> supervision (snd (Pipeline_decision_function stub_pipeline [0, 0])) = UNSUPERVISED"
proof -
  have init: "Pipeline_init True (PreprocessorObj (Base drop_last)) (DetectorObj constant_detector) =
     Inr stub_pipeline"
    by (simp add: Pipeline_init_def stub_pipeline_def constant_detector_def)
  from init
    Pipeline_supervision_is_detectors [where accept_empty = True and pre = "PreprocessorObj (Base drop_last)"
        and det = "DetectorObj constant_detector" and pl = stub_pipeline
        and self = stub_pipeline and X = "[0, 0]" and y = None]
  show ?thesis by (simp add: stub_pipeline_def)
qed

section \<open>Fitting and scoring\<close>

text \<open>
  C5. \<open>Pipeline.fit\<close> runs the preprocessor's \<open>fit_transform\<close> on the given
  \<open>(X, y)\<close>, then the detector's \<open>fit\<close> on the transformed \<open>(X', y')\<close>, and
  returns the receiver: what is returned is the Pipeline as the call left it,
  with the two components in the state their calls left. Conversely, whenever
  \<open>fit\<close> returns, both calls were made in this order and succeeded.
\<close>

theorem Pipeline_fit_returns_self:
  "(fit_transform (preprocessor self) X y = (Inr (X', y'), pre')
      \<and> detector_fit (detector self) X' y' = (Inr u, det') \<longrightarrow>
        Pipeline_fit self X y =
          (Inr (self\<lparr>preprocessor := pre', detector := det'\<rparr>),
           self\<lparr>preprocessor := pre', detector := det'\<rparr>))
   \<and> (fst (Pipeline_fit self X y) = Inr returned \<longrightarrow>
        returned = snd (Pipeline_fit self X y)
        \<and> (\<exists>X' y' pre' u det'.
              fit_transform (preprocessor self) X y = (Inr (X', y'), pre')
              \<and> detector_fit (detector self) X' y' = (Inr u, det')))"
  by (auto simp: Pipeline_fit_def split: prod.splits sum.splits)

theorem Pipeline_fit_returns_self_witness:
  "fit_transform (preprocessor stub_pipeline) [0, 0, 0, 0] (Some [0, 1, 0, 0]) =
     (Inr ([0, 0, 0], Some [0, 1, 0, 0]), Base (drop_last\<lparr>p_state := 1\<rparr>))
   \<and> detector_fit (detector stub_pipeline) [0, 0, 0] (Some [0, 1, 0, 0]) =
       (Inr (), constant_detector\<lparr>d_state := Some [0, 1, 0, 0]\<rparr>)
   \<and> Pipeline_fit stub_pipeline [0, 0, 0, 0] (Some [0, 1, 0, 0]) =
       (Inr (stub_pipeline\<lparr>preprocessor := Base (drop_last\<lparr>p_state := 1\<rparr>),
                            detector := constant_detector\<lparr>d_state := Some [0, 1, 0, 0]\<rparr>\<rparr>),
        stub_pipeline\<lparr>preprocessor := Base (drop_last\<lparr>p_state := 1\<rparr>),
                      detector := constant_detector\<lparr>d_state := Some [0, 1, 0, 0]\<rparr>\<rparr>)"
proof -
  have pre: "fit_transform (preprocessor stub_pipeline) [0, 0, 0, 0] (Some [0, 1, 0, 0]) =
     (Inr ([0, 0, 0], Some [0, 1, 0, 0]), Base (drop_last\<lparr>p_state := 1\<rparr>))"
    by (simp add: stub_pipeline_def drop_last_def)
  have det: "detector_fit (detector stub_pipeline) [0, 0, 0] (Some [0, 1, 0, 0]) =
       (Inr (), constant_detector\<lparr>d_state := Some [0, 1, 0, 0]\<rparr>)"
    by (simp add: stub_pipeline_def detector_fit_def constant_detector_def)
  from pre det
    Pipeline_fit_returns_self [where self = stub_pipeline and X = "[0, 0, 0, 0]" and y = "Some [0, 1, 0, 0]"
        and X' = "[0, 0, 0]" and y' = "Some [0, 1, 0, 0]"
        and pre' = "Base (drop_last\<lparr>p_state := 1\<rparr>)" and u = "()"
        and det' = "constant_detector\<lparr>d_state := Some [0, 1, 0, 0]\<rparr>"]
  show ?thesis by simp
qed

text \<open>
  C6. \<open>Pipeline.decision_function\<close> calls the preprocessor's \<open>transform\<close> with
  \<open>y = None\<close>, ignores the labels \<open>y'\<close> it gives back, and produces exactly
  what the detector's \<open>decision_function\<close> produces on the transformed data
  \<open>X'\<close>. With the stub that drops the last element and the stub detector that
  scores \<open>1.0\<close> per element, the fitted Pipeline scores \<open>[0, 0, 0, 0]\<close> as
  \<open>[1.0, 1.0, 1.0]\<close>: three scores for four inputs.
\<close>

theorem Pipeline_decision_function_scores_transformed:
  "(transform (preprocessor self) X None = (Inr (X', y'), pre') \<longrightarrow>
      fst (Pipeline_decision_function self X) =
        fst (detector_decision_function (detector self) X'))
   \<and> fst (Pipeline_decision_function (snd (Pipeline_fit stub_pipeline [0, 0, 0, 0] None))
           [0, 0, 0, 0]) = Inr [1, 1, 1]"
proof
  show "transform (preprocessor self) X None = (Inr (X', y'), pre') \<longrightarrow>
      fst (Pipeline_decision_function self X) =
        fst (detector_decision_function (detector self) X')"
    by (auto simp: Pipeline_decision_function_def split: prod.splits sum.splits)
next
  show "fst (Pipeline_decision_function (snd (Pipeline_fit stub_pipeline [0, 0, 0, 0] None))
           [0, 0, 0, 0]) = Inr [1, 1, 1]"
    by (simp add: Pipeline_decision_function_def Pipeline_fit_def stub_pipeline_def
        drop_last_def constant_detector_def detector_fit_def detector_decision_function_def)
qed

theorem Pipeline_decision_function_scores_transformed_witness:
  "transform (preprocessor stub_pipeline) [0, 0, 0, 0] None =
     (Inr ([0, 0, 0], None), Base drop_last)
   \<and> fst (Pipeline_decision_function stub_pipeline [0, 0, 0, 0]) = Inr [1, 1, 1]"
proof -
  have pre: "transform (preprocessor stub_pipeline) [0, 0, 0, 0] None =
     (Inr ([0, 0, 0], None), Base drop_last)"
    by (simp add: stub_pipeline_def drop_last_def)
  have det: "fst (detector_decision_function (detector stub_pipeline) [0, 0, 0]) = Inr [1, 1, 1]"
    by (simp add: stub_pipeline_def detector_decision_function_def constant_detector_def)
  from pre det
    Pipeline_decision_function_scores_transformed [where self = stub_pipeline and X = "[0, 0, 0, 0]" and X' = "[0, 0, 0]"
        and y' = None and pre' = "Base drop_last"]
  show ?thesis by simp
qed

text \<open>
  C7. An exception raised by the preprocessor or by the detector during \<open>fit\<close>
  or \<open>decision_function\<close> leaves the Pipeline's method as the same exception
  \<open>e\<close>. Nothing is rolled back: when the detector's \<open>fit\<close> raises after the
  preprocessor's \<open>fit_transform\<close> succeeded, the Pipeline keeps the preprocessor
  \<open>pre'\<close> in the state that call left.
\<close>

theorem Pipeline_propagates_failures:
  "(fit_transform (preprocessor self) X y = (Inl e, pre') \<longrightarrow>
      Pipeline_fit self X y = (Inl e, self\<lparr>preprocessor := pre'\<rparr>))
   \<and> (fit_transform (preprocessor self) X y = (Inr (X', y'), pre')
        \<and> detector_fit (detector self) X' y' = (Inl e, det') \<longrightarrow>
          Pipeline_fit self X y = (Inl e, self\<lparr>preprocessor := pre', detector := det'\<rparr>))
   \<and> (transform (preprocessor self) X None = (Inl e, pre') \<longrightarrow>
        Pipeline_decision_function self X = (Inl e, self\<lparr>preprocessor := pre'\<rparr>))
   \<and> (transform (preprocessor self) X None = (Inr (X', y'), pre')
        \<and> detector_decision_function (detector self) X' = (Inl e, det') \<longrightarrow>
          Pipeline_decision_function self X =
            (Inl e, self\<lparr>preprocessor := pre', detector := det'\<rparr>))"
  by (simp add: Pipeline_fit_def Pipeline_decision_function_def)

theorem Pipeline_propagates_failures_witness:
  "fit_transform (preprocessor failing_pipeline) [0, 0] None =
     (Inr ([0], None), Base (drop_last\<lparr>p_state := 1\<rparr>))
   \<and> detector_fit (detector failing_pipeline) [0] None =
       (Inl (Exception ''fit failed''), failing_detector)
   \<and> Pipeline_fit failing_pipeline [0, 0] None =
       (Inl (Exception ''fit failed''),
        failing_pipeline\<lparr>preprocessor := Base (drop_last\<lparr>p_state := 1\<rparr>)\<rparr>)
   \<and> Pipeline_decision_function failing_pipeline [0, 0] =
       (Inl (Exception ''not fitted''), failing_pipeline)
   \<and> Pipeline_fit (failing_pipeline\<lparr>preprocessor := Base failing_preprocessor\<rparr>) [0, 0] None =
       (Inl (Exception ''cannot fit''),
        failing_pipeline\<lparr>preprocessor := Base (failing_preprocessor\<lparr>p_state := 1\<rparr>)\<rparr>)
   \<and> Pipeline_decision_function (failing_pipeline\<lparr>preprocessor := Base failing_preprocessor\<rparr>)
        [0, 0] =
       (Inl (Exception ''not fitted''),
        failing_pipeline\<lparr>preprocessor := Base failing_preprocessor\<rparr>)"
proof -
  let ?q = "failing_pipeline\<lparr>preprocessor := Base failing_preprocessor\<rparr>"
  have pre: "fit_transform (preprocessor failing_pipeline) [0, 0] None =
     (Inr ([0], None), Base (drop_last\<lparr>p_state := 1\<rparr>))"
    by (simp add: failing_pipeline_def drop_last_def)
  have det: "detector_fit (detector failing_pipeline) [0] None =
       (Inl (Exception ''fit failed''), failing_detector)"
    by (simp add: failing_pipeline_def detector_fit_def failing_detector_def)
  have pre2: "transform (preprocessor failing_pipeline) [0, 0] None =
     (Inr ([0], None), Base drop_last)"
    by (simp add: failing_pipeline_def drop_last_def)
  have det2: "detector_decision_function (detector failing_pipeline) [0] =
       (Inl (Exception ''not fitted''), failing_detector)"
    by (simp add: failing_pipeline_def detector_decision_function_def failing_detector_def)
  have pre3: "fit_transform (preprocessor ?q) [0, 0] None =
     (Inl (Exception ''cannot fit''), Base (failing_preprocessor\<lparr>p_state := 1\<rparr>))"
    by (simp add: failing_preprocessor_def)
  have pre4: "transform (preprocessor ?q) [0, 0] None =
     (Inl (Exception ''not fitted''), Base failing_preprocessor)"
    by (simp add: failing_preprocessor_def)
  have same: "failing_pipeline\<lparr>preprocessor := Base drop_last, detector := failing_detector\<rparr> =
      failing_pipeline"
    by (simp add: failing_pipeline_def)
  from pre det pre2 det2 same
    Pipeline_propagates_failures [where self = failing_pipeline and X = "[0, 0]" and y = None
        and e = "Exception ''fit failed''" and X' = "[0]" and y' = None
        and pre' = "Base (drop_last\<lparr>p_state := 1\<rparr>)" and det' = failing_detector]
    Pipeline_propagates_failures [where self = failing_pipeline and X = "[0, 0]" and y = None
        and e = "Exception ''not fitted''" and X' = "[0]" and y' = None
        and pre' = "Base drop_last" and det' = failing_detector]
  have first: "Pipeline_fit failing_pipeline [0, 0] None =
       (Inl (Exception ''fit failed''),
        failing_pipeline\<lparr>preprocessor := Base (drop_last\<lparr>p_state := 1\<rparr>)\<rparr>)
     \<and> Pipeline_decision_function failing_pipeline [0, 0] =
       (Inl (Exception ''not fitted''), failing_pipeline)"
    by (simp add: failing_pipeline_def)
  from pre3 pre4
    Pipeline_propagates_failures [where self = ?q and X = "[0, 0]" and y = None and e = "Exception ''cannot fit''"
        and pre' = "Base (failing_preprocessor\<lparr>p_state := 1\<rparr>)"]
    Pipeline_propagates_failures [where self = ?q and X = "[0, 0]" and y = None and e = "Exception ''not fitted''"
        and pre' = "Base failing_preprocessor"]
  have second: "Pipeline_fit ?q [0, 0] None =
       (Inl (Exception ''cannot fit''),
        failing_pipeline\<lparr>preprocessor := Base (failing_preprocessor\<lparr>p_state := 1\<rparr>)\<rparr>)
     \<and> Pipeline_decision_function ?q [0, 0] = (Inl (Exception ''not fitted''), ?q)"
    by simp
  from pre det first second show ?thesis by simp
qed

section \<open>Description\<close>

text \<open>
  C9. \<open>str(pipeline)\<close> is the preprocessor's description, then \<open>->\<close>, then the
  detector's description. For a chain of two steps \<open>a\<close> and \<open>b\<close> it is the
  description of \<open>a\<close>, the chain's separator, the description of \<open>b\<close>, then
  \<open>->\<close> and the detector's description; the steps are rendered by the same
  function, so a step that is a chain renders its own steps.
\<close>

theorem Pipeline_str_composition:
  "Pipeline_str sep self =
     Preprocessor_str sep (preprocessor self) @ ''->'' @ BaseDetector_str (detector self)
   \<and> Pipeline_str sep
        \<lparr>supervision = m, preprocessor = ChainedPreprocessor [a, b], detector = d\<rparr> =
       Preprocessor_str sep a @ sep @ Preprocessor_str sep b @ ''->'' @ BaseDetector_str d"
  by (simp add: Pipeline_str_def)

theorem Pipeline_str_composition_witness:
  "Pipeline_str ''->''
     \<lparr>supervision = UNSUPERVISED,
      preprocessor = ChainedPreprocessor [Base drop_last, Base identity_stub],
      detector = constant_detector\<rparr> = ''DropLast->Identity->D''"
  using Pipeline_str_composition [where sep = "''->''" and m = UNSUPERVISED and a = "Base drop_last"
      and b = "Base identity_stub" and d = constant_detector]
  by (simp add: drop_last_def identity_stub_def constant_detector_def BaseDetector_str_def
      Pipeline_str_def)

section \<open>Loading an algorithm configuration\<close>

text \<open>
  C8. For a configuration, given as a dictionary or read from a JSON file, whose
  \<open>anomaly_detector\<close> entry is the name \<open>name\<close>: when the module has no class
  of that name, \<open>handle_algorithm_configuration\<close> raises \<open>AttributeError\<close> (the
  specification's \<open>UnknownAlgorithm\<close>); when it has one, the result is whatever
  that class's \<open>load\<close> gives for the configuration, the instance or the
  exception \<open>load\<close> raises.
\<close>

theorem handle_algorithm_configuration_lookup:
  assumes "read_configuration read_json algorithm_configuration = Inr (JsonObject d)"
      and "d ''anomaly_detector'' = Some (PyStr name)"
  shows "(registry name = None \<longrightarrow>
            handle_algorithm_configuration read_json registry algorithm_configuration =
              Inl (AttributeError name)
            \<and> fails_with is_UnknownAlgorithm
                (handle_algorithm_configuration read_json registry algorithm_configuration))
         \<and> (registry name = Some load \<longrightarrow>
              handle_algorithm_configuration read_json registry algorithm_configuration = load d)"
  using assms by (simp add: handle_algorithm_configuration_def)

theorem handle_algorithm_configuration_lookup_witness:
  "handle_algorithm_configuration (\<lambda>path. Inl (OSError ''no such file'')) example_module
     (ConfigurationDict unknown_configuration) = Inl (AttributeError ''LOF'')
   \<and> handle_algorithm_configuration (\<lambda>path. Inr (JsonObject known_configuration)) example_module
     (ConfigurationPath ''cfg.json'') = Inr ''IForest(100)''"
proof -
  let ?load = "\<lambda>parameters. case parameters ''n_estimators'' of
                         None \<Rightarrow> Inl (KeyError ''n_estimators'')
                       | Some v \<Rightarrow> Inr (''IForest('' @ py_str v @ '')'')"
  have a: "read_configuration (\<lambda>path. Inl (OSError ''no such file'')) (ConfigurationDict unknown_configuration)
      = Inr (JsonObject unknown_configuration)"
    by (simp add: read_configuration_def)
  have b: "unknown_configuration ''anomaly_detector'' = Some (PyStr ''LOF'')"
    by (simp add: unknown_configuration_def)
  have c: "example_module ''LOF'' = None"
    by (simp add: example_module_def)
  have a2: "read_configuration (\<lambda>path. Inr (JsonObject known_configuration)) (ConfigurationPath ''cfg.json'')
      = Inr (JsonObject known_configuration)"
    by (simp add: read_configuration_def)
  have b2: "known_configuration ''anomaly_detector'' = Some (PyStr ''IForest'')"
    by (simp add: known_configuration_def)
  have c2: "example_module ''IForest'' = Some ?load"
    by (simp add: example_module_def)
  have d2: "?load known_configuration = Inr ''IForest(100)''"
    by (simp add: known_configuration_def)
  from handle_algorithm_configuration_lookup [OF a b, where registry = example_module] c
    handle_algorithm_configuration_lookup [OF a2 b2, where registry = example_module and load = ?load] c2 d2
  show ?thesis by simp
qed

section \<open>Resolving an output configuration\<close>







text \<open>
  An object without attributes makes the call raise under every operating
  system: the failure is not one of the file system.
\<close>

lemma handle_output_configuration_object_without_attributes:
  "handle_output_configuration os fs (Built (OutputConfiguration Map.empty)) algorithm_name =
     Inl (AttributeError ''directory_path'')"
  by (simp add: handle_output_configuration_def resolve_output_configuration_def
      create_directories_def directory_def getattr_def class_attributes_def)




end
